theory Spec2Isabelle
  imports Main "HOL-Library.Word"
begin

section \<open>JavaScript strings\<close>

text \<open>
  A JavaScript string is a sequence of 16-bit code units. The handlers only use
  \<^verbatim>\<open>trim\<close>, concatenation, strict equality and truthiness (a string is falsy exactly
  when it is empty), all of which are exact on code units.
\<close>

type_synonym jsstring = "16 word list"

definition str :: "string \<Rightarrow> jsstring" where
  "str cs = map of_char cs"

text \<open>
  ECMAScript \<^verbatim>\<open>String.prototype.trim\<close> strips WhiteSpace and LineTerminator code
  points from both ends: TAB, LF, VT, FF, CR, SP, NBSP, U+1680, U+2000..U+200A,
  LS, PS, U+202F, U+205F, U+3000 and U+FEFF. All of them are single code units.
\<close>

definition isWhiteSpace :: "16 word \<Rightarrow> bool" where
  "isWhiteSpace c \<longleftrightarrow>
     c = 0x0009 \<or> c = 0x000A \<or> c = 0x000B \<or> c = 0x000C \<or> c = 0x000D \<or>
     c = 0x0020 \<or> c = 0x00A0 \<or> c = 0x1680 \<or> (0x2000 \<le> c \<and> c \<le> 0x200A) \<or>
     c = 0x2028 \<or> c = 0x2029 \<or> c = 0x202F \<or> c = 0x205F \<or> c = 0x3000 \<or>
     c = 0xFEFF"

definition trim :: "jsstring \<Rightarrow> jsstring" where
  "trim s = rev (dropWhile isWhiteSpace (rev (dropWhile isWhiteSpace s)))"

text \<open>\<^verbatim>\<open>x.trim() || null\<close>: the empty string is falsy, so it becomes \<^verbatim>\<open>null\<close>.\<close>

definition trim_or_null :: "jsstring \<Rightarrow> jsstring option" where
  "trim_or_null s = (if trim s = [] then None else Some (trim s))"

section \<open>Data model (src/components/TodoList.tsx, lines 7-19)\<close>

text \<open>
  \<^verbatim>\<open>interface Todo\<close>. The fields \<^verbatim>\<open>id\<close>, \<^verbatim>\<open>title\<close> and \<^verbatim>\<open>description\<close> carry the
  prefix \<open>todo_\<close>: \<open>id\<close> is a HOL constant, and \<^verbatim>\<open>title\<close> and \<^verbatim>\<open>description\<close> are
  also names of the component's form state.
\<close>

record Todo =
  todo_id :: jsstring
  todo_title :: jsstring
  todo_description :: "jsstring option"
  completed :: bool
  created_at :: jsstring
  updated_at :: jsstring

text \<open>The part of the session provider's \<^verbatim>\<open>User\<close> that the code reads.\<close>

record User =
  user_id :: jsstring
  email :: "jsstring option"

section \<open>The Record Store as seen by the client\<close>

text \<open>
  The store is an external collaborator. A call is recorded with the fields the
  code sends; the answer \<^verbatim>\<open>{ data, error }\<close> is an input of the handler. The access
  library's response type is a union: a failure carries an error and \<^verbatim>\<open>data: null\<close>,
  a success carries the data and \<^verbatim>\<open>error: null\<close>.
\<close>

datatype PostgrestError = PostgrestError (message: jsstring)

datatype 'a PostgrestResponse =
  PostgrestFailure PostgrestError
| PostgrestSuccess 'a

fun resp_data :: "'a PostgrestResponse \<Rightarrow> 'a option" where
  "resp_data (PostgrestFailure e) = None"
| "resp_data (PostgrestSuccess d) = Some d"

fun resp_error :: "'a PostgrestResponse \<Rightarrow> PostgrestError option" where
  "resp_error (PostgrestFailure e) = Some e"
| "resp_error (PostgrestSuccess d) = None"

datatype StoreCall =
  Insert (ins_title: jsstring) (ins_description: "jsstring option")
         (ins_user_id: jsstring) (ins_completed: bool)
| UpdateContent (upd_id: jsstring) (upd_title: jsstring)
         (upd_description: "jsstring option") (upd_updated_at: jsstring)
| UpdateCompleted (tog_id: jsstring) (tog_completed: bool) (tog_updated_at: jsstring)
| Delete (del_id: jsstring)
| SelectByUser (sel_user_id: jsstring) (sel_order_column: jsstring) (sel_ascending: bool)

text \<open>
  Everything a handler does besides changing the component state, in program order,
  and the projections of such a trace on store calls, alerts, console errors and
  code exchanges.
\<close>

datatype Effect =
  PreventDefault
| Confirm jsstring
| Store StoreCall
| ConsoleError jsstring PostgrestError
| Alert jsstring
| GetUser
| ExchangeCodeForSession jsstring

fun store_calls :: "Effect list \<Rightarrow> StoreCall list" where
  "store_calls [] = []"
| "store_calls (Store c # es) = c # store_calls es"
| "store_calls (e # es) = store_calls es"

fun alerts :: "Effect list \<Rightarrow> jsstring list" where
  "alerts [] = []"
| "alerts (Alert m # es) = m # alerts es"
| "alerts (e # es) = alerts es"

fun console_errors :: "Effect list \<Rightarrow> PostgrestError list" where
  "console_errors [] = []"
| "console_errors (ConsoleError m err # es) = err # console_errors es"
| "console_errors (e # es) = console_errors es"

fun exchanges :: "Effect list \<Rightarrow> jsstring list" where
  "exchanges [] = []"
| "exchanges (ExchangeCodeForSession c # es) = c # exchanges es"
| "exchanges (e # es) = exchanges es"

section \<open>Todo List Component (src/components/TodoList.tsx)\<close>

text \<open>The seven \<^verbatim>\<open>useState\<close> cells of lines 22-28.\<close>

record TodoListState =
  todos :: "Todo list"
  title :: jsstring
  description :: jsstring
  editingId :: "jsstring option"
  editTitle :: jsstring
  editDescription :: jsstring
  loading :: bool

definition initialState :: "Todo list \<Rightarrow> TodoListState" where
  "initialState initialTodos =
     \<lparr>todos = initialTodos, title = [], description = [], editingId = None,
      editTitle = [], editDescription = [], loading = False\<rparr>"

text \<open>
  A handler closes over the state of the render that offered it, so every read of
  \<^verbatim>\<open>todos\<close>, \<^verbatim>\<open>title\<close>, ... is a read of the state \<open>s\<close> at invocation. It is
  modelled from invocation to completion: the store's answer \<open>resp\<close>, the user's
  answer to \<^verbatim>\<open>confirm\<close> and the clock reading \<open>now\<close> of
  \<^verbatim>\<open>new Date().toISOString()\<close> are arguments, the result is the state after the
  last setter together with the effects in program order. \<^verbatim>\<open>setLoading(true)\<close>
  followed by \<^verbatim>\<open>setLoading(false)\<close> leaves \<open>loading = False\<close>.
\<close>

definition handleCreate ::
  "User \<Rightarrow> Todo PostgrestResponse \<Rightarrow> TodoListState \<Rightarrow> TodoListState \<times> Effect list" where
  "handleCreate user resp s =
     (if trim (title s) = [] then (s, [PreventDefault])
      else
        let call = Insert (trim (title s)) (trim_or_null (description s)) (user_id user) False
        in case resp of
             PostgrestFailure err \<Rightarrow>
               (s\<lparr>loading := False\<rparr>,
                [PreventDefault, Store call,
                 ConsoleError (str ''Error creating todo:'') err,
                 Alert (str ''Error creating todo: '' @ message err)])
           | PostgrestSuccess data \<Rightarrow>
               (s\<lparr>loading := False, todos := data # todos s, title := [], description := []\<rparr>,
                [PreventDefault, Store call]))"

definition handleUpdate ::
  "jsstring \<Rightarrow> jsstring \<Rightarrow> Todo PostgrestResponse \<Rightarrow> TodoListState
     \<Rightarrow> TodoListState \<times> Effect list" where
  "handleUpdate i now resp s =
     (if trim (editTitle s) = [] then (s, [])
      else
        let call = UpdateContent i (trim (editTitle s)) (trim_or_null (editDescription s)) now
        in case resp of
             PostgrestFailure err \<Rightarrow>
               (s\<lparr>loading := False\<rparr>,
                [Store call,
                 ConsoleError (str ''Error updating todo:'') err,
                 Alert (str ''Error updating todo: '' @ message err)])
           | PostgrestSuccess data \<Rightarrow>
               (s\<lparr>loading := False,
                  todos := map (\<lambda>todo. if todo_id todo = i then data else todo) (todos s),
                  editingId := None, editTitle := [], editDescription := []\<rparr>,
                [Store call]))"

definition handleDelete ::
  "jsstring \<Rightarrow> bool \<Rightarrow> unit PostgrestResponse \<Rightarrow> TodoListState
     \<Rightarrow> TodoListState \<times> Effect list" where
  "handleDelete i confirmed resp s =
     (let ask = Confirm (str ''Are you sure you want to delete this todo?'')
      in if \<not> confirmed then (s, [ask])
         else case resp_error resp of
                Some err \<Rightarrow>
                  (s\<lparr>loading := False\<rparr>,
                   [ask, Store (Delete i),
                    ConsoleError (str ''Error deleting todo:'') err,
                    Alert (str ''Error deleting todo: '' @ message err)])
              | None \<Rightarrow>
                  (s\<lparr>loading := False,
                     todos := filter (\<lambda>todo. todo_id todo \<noteq> i) (todos s)\<rparr>,
                   [ask, Store (Delete i)]))"

definition handleToggleComplete ::
  "jsstring \<Rightarrow> bool \<Rightarrow> jsstring \<Rightarrow> Todo PostgrestResponse \<Rightarrow> TodoListState
     \<Rightarrow> TodoListState \<times> Effect list" where
  "handleToggleComplete i c now resp s =
     (let call = UpdateCompleted i (\<not> c) now
      in case resp of
           PostgrestFailure err \<Rightarrow>
             (s\<lparr>loading := False\<rparr>,
              [Store call, ConsoleError (str ''Error toggling todo:'') err])
         | PostgrestSuccess data \<Rightarrow>
             (s\<lparr>loading := False,
                todos := map (\<lambda>todo. if todo_id todo = i then data else todo) (todos s)\<rparr>,
              [Store call]))"

definition startEdit :: "Todo \<Rightarrow> TodoListState \<Rightarrow> TodoListState" where
  "startEdit todo s =
     s\<lparr>editingId := Some (todo_id todo), editTitle := todo_title todo,
       editDescription := (case todo_description todo of
                             None \<Rightarrow> []
                           | Some d \<Rightarrow> d)\<rparr>"

definition cancelEdit :: "TodoListState \<Rightarrow> TodoListState" where
  "cancelEdit s = s\<lparr>editingId := None, editTitle := [], editDescription := []\<rparr>"

text \<open>
  The controls the render (lines 139-287) wires to the handlers. Every control
  carries \<^verbatim>\<open>disabled={loading}\<close>; a record's card shows Save and Cancel when
  \<^verbatim>\<open>editingId === todo.id\<close>, and the checkbox, Edit and Delete otherwise.
\<close>

datatype Control =
  SubmitCreate
| Save jsstring
| CancelEdit
| ToggleBox jsstring bool
| Edit Todo
| DeleteButton jsstring

definition card_controls :: "TodoListState \<Rightarrow> Todo \<Rightarrow> Control list" where
  "card_controls s todo =
     (if editingId s = Some (todo_id todo)
      then [Save (todo_id todo), CancelEdit]
      else [ToggleBox (todo_id todo) (completed todo), Edit todo, DeleteButton (todo_id todo)])"

definition enabled_controls :: "TodoListState \<Rightarrow> Control list" where
  "enabled_controls s =
     (if loading s then [] else SubmitCreate # concat (map (card_controls s) (todos s)))"

text \<open>The edit state: the editing target and the two edit form fields.\<close>

definition edit_state_cleared :: "TodoListState \<Rightarrow> bool" where
  "edit_state_cleared s \<longleftrightarrow> editingId s = None \<and> editTitle s = [] \<and> editDescription s = []"

section \<open>Dashboard Loader (src/app/dashboard/page.tsx)\<close>

text \<open>
  \<^verbatim>\<open>redirect\<close> of the routing framework has return type \<^verbatim>\<open>never\<close>: it throws, which
  ends the request. The page therefore either redirects or renders the shell with
  the list component's props.
\<close>

datatype PageResult =
  Redirect jsstring
| Rendered (welcome_email: "jsstring option") (initialTodos: "Todo list") (list_user: User)

definition DashboardPage ::
  "User option \<Rightarrow> Todo list PostgrestResponse \<Rightarrow> PageResult \<times> Effect list" where
  "DashboardPage current resp =
     (case current of
        None \<Rightarrow> (Redirect (str ''/login''), [GetUser])
      | Some user \<Rightarrow>
          (Rendered (email user)
             (case resp_data resp of None \<Rightarrow> [] | Some ts \<Rightarrow> ts)
             user,
           [GetUser, Store (SelectByUser (user_id user) (str ''created_at'') False)]
           @ (case resp_error resp of
                Some err \<Rightarrow> [ConsoleError (str ''Error fetching todos:'') err]
              | None \<Rightarrow> [])))"

section \<open>Auth Callback Handler (src/app/auth/callback/route.ts)\<close>

text \<open>
  The parsed request URL: its origin and its query as name/value pairs in order.
  \<^verbatim>\<open>searchParams.get\<close> returns the first value of the name, or \<^verbatim>\<open>null\<close>.
\<close>

record Request =
  origin :: jsstring
  searchParams :: "(jsstring \<times> jsstring) list"

fun searchParams_get :: "(jsstring \<times> jsstring) list \<Rightarrow> jsstring \<Rightarrow> jsstring option" where
  "searchParams_get [] name = None"
| "searchParams_get ((k, v) # ps) name = (if k = name then Some v else searchParams_get ps name)"

datatype NextResponse = NextRedirect (location: jsstring)

text \<open>
  \<open>exchanged\<close> is the outcome the session provider reports for the exchange
  (\<open>None\<close> for success); the handler awaits the call and drops its result.
  \<^verbatim>\<open>if (code)\<close> tests truthiness: \<^verbatim>\<open>null\<close> and the empty string both fail it.
\<close>

definition GET :: "Request \<Rightarrow> jsstring option \<Rightarrow> NextResponse \<times> Effect list" where
  "GET request exchanged =
     (let code = searchParams_get (searchParams request) (str ''code'');
          type = searchParams_get (searchParams request) (str ''type'');
          effects = (case code of
                       None \<Rightarrow> []
                     | Some c \<Rightarrow> if c = [] then [] else [ExchangeCodeForSession c])
      in if type = Some (str ''recovery'')
         then (NextRedirect (origin request @ str ''/reset-password''), effects)
         else (NextRedirect (origin request @ str ''/dashboard''), effects))"

section \<open>Concrete inputs\<close>

text \<open>Small inputs on which the handlers are run below.\<close>

definition alice :: User where
  "alice = \<lparr>user_id = str ''u1'', email = Some (str ''alice@example.org'')\<rparr>"

definition todoA :: Todo where
  "todoA = \<lparr>todo_id = str ''1'', todo_title = str ''A'', todo_description = None,
            completed = False, created_at = str ''t1'', updated_at = str ''t1''\<rparr>"

definition todoB :: Todo where
  "todoB = \<lparr>todo_id = str ''2'', todo_title = str ''B'', todo_description = None,
            completed = False, created_at = str ''t2'', updated_at = str ''t2''\<rparr>"

text \<open>What the store returns for record 1 after a toggle, and after an edit, at time t9.\<close>

definition todoA_done :: Todo where
  "todoA_done = todoA\<lparr>completed := True, updated_at := str ''t9''\<rparr>"

definition todoA_renamed :: Todo where
  "todoA_renamed = todoA\<lparr>todo_title := str ''A2'', updated_at := str ''t9''\<rparr>"

definition storeDown :: PostgrestError where
  "storeDown = PostgrestError (str ''network'')"

text \<open>The list holds record 1 and the create form reads " B ".\<close>

definition formState :: TodoListState where
  "formState = (initialState [todoA])\<lparr>title := str '' B ''\<rparr>"

text \<open>The create form holds two blanks and a description.\<close>

definition blankState :: TodoListState where
  "blankState = (initialState [todoA])\<lparr>title := str ''  '', description := str ''d''\<rparr>"

text \<open>Records 2 and 1, with record 1 in edit mode and its title changed to "A2".\<close>

definition editingState :: TodoListState where
  "editingState = (initialState [todoB, todoA])
     \<lparr>editingId := Some (str ''1''), editTitle := str ''A2''\<rparr>"

text \<open>Record 1 in edit mode with the edit title blanked out.\<close>

definition blankEditState :: TodoListState where
  "blankEditState = (initialState [todoB, todoA])
     \<lparr>editingId := Some (str ''1''), editTitle := str '' ''\<rparr>"

definition twoTodos :: TodoListState where
  "twoTodos = initialState [todoB, todoA]"

text \<open>Callback requests: \<^verbatim>\<open>?code=\<close>, \<^verbatim>\<open>?code=abc&type=recovery\<close> and \<^verbatim>\<open>?code=abc\<close>.\<close>

definition emptyCodeRequest :: Request where
  "emptyCodeRequest =
     \<lparr>origin = str ''https://app.example'', searchParams = [(str ''code'', [])]\<rparr>"

definition recoveryRequest :: Request where
  "recoveryRequest =
     \<lparr>origin = str ''https://app.example'',
      searchParams = [(str ''code'', str ''abc''), (str ''type'', str ''recovery'')]\<rparr>"

section \<open>Facts about the library functions the handlers use\<close>

lemma trim_empty_iff: "trim s = [] \<longleftrightarrow> (\<forall>c\<in>set s. isWhiteSpace c)"
proof -
  have "trim s = [] \<longleftrightarrow> (\<forall>c\<in>set (dropWhile isWhiteSpace s). isWhiteSpace c)"
    by (simp add: trim_def)
  also have "\<dots> \<longleftrightarrow> dropWhile isWhiteSpace s = []"
    by (metis hd_dropWhile hd_in_set empty_iff list.set(1))
  finally show ?thesis by simp
qed

lemma trim_nonempty_arg: "trim s \<noteq> [] \<Longrightarrow> s \<noteq> []"
  by (auto simp: trim_empty_iff)

lemma map_replace_absent:
  "i \<notin> todo_id ` set ts \<Longrightarrow> map (\<lambda>todo. if todo_id todo = i then d else todo) ts = ts"
  by (induction ts) auto

lemma filter_absent:
  "i \<notin> todo_id ` set ts \<Longrightarrow> filter (\<lambda>todo. todo_id todo \<noteq> i) ts = ts"
  by (induction ts) auto

lemma map_replace_distinct:
  "distinct (map todo_id ts) \<Longrightarrow> k < length ts \<Longrightarrow> todo_id (ts ! k) = i
     \<Longrightarrow> map (\<lambda>todo. if todo_id todo = i then d else todo) ts = ts[k := d]"
proof (induction ts arbitrary: k)
  case Nil
  then show ?case by simp
next
  case (Cons t ts)
  show ?case
  proof (cases k)
    case 0
    with Cons.prems have "i \<notin> todo_id ` set ts" by auto
    with 0 Cons.prems show ?thesis by (simp add: map_replace_absent)
  next
    case (Suc j)
    with Cons.prems have "todo_id t \<noteq> i" by (auto simp: image_iff)
    with Suc Cons show ?thesis by simp
  qed
qed

lemma filter_remove_distinct:
  "distinct (map todo_id ts) \<Longrightarrow> k < length ts \<Longrightarrow> todo_id (ts ! k) = i
     \<Longrightarrow> filter (\<lambda>todo. todo_id todo \<noteq> i) ts = take k ts @ drop (Suc k) ts"
proof (induction ts arbitrary: k)
  case Nil
  then show ?case by simp
next
  case (Cons t ts)
  show ?case
  proof (cases k)
    case 0
    with Cons.prems have "i \<notin> todo_id ` set ts" by auto
    with 0 Cons.prems show ?thesis by (simp add: filter_absent)
  next
    case (Suc j)
    with Cons.prems have "todo_id t \<noteq> i" by (auto simp: image_iff)
    with Suc Cons show ?thesis by simp
  qed
qed

section \<open>Facts about the concrete inputs\<close>

lemma trim_examples:
  "trim (str '' B '') = str ''B''"
  "trim (str ''  '') = []"
  "trim (str '' '') = []"
  "trim (str ''A2'') = str ''A2''"
  "trim (str ''x'') = str ''x''"
  "trim (str ''d'') = str ''d''"
  "trim [] = []"
  by (simp_all add: trim_def str_def isWhiteSpace_def)

lemma str_nonempty:
  "str ''B'' \<noteq> []" "str ''A2'' \<noteq> []" "str ''x'' \<noteq> []" "str ''d'' \<noteq> []"
  by (simp_all add: str_def)

lemma example_ids:
  "str ''1'' \<noteq> str ''2''" "str ''2'' \<noteq> str ''1''"
  "str ''3'' \<noteq> str ''1''" "str ''3'' \<noteq> str ''2''"
  by (simp_all add: str_def)

lemma example_names:
  "str ''code'' \<noteq> str ''type''" "str ''type'' \<noteq> str ''code''" "str ''abc'' \<noteq> []"
  by (simp_all add: str_def)

section \<open>Create\<close>

text \<open>
  Claim C1, as amended. When the trimmed title is not empty and the insert succeeds,
  the record the store returned (with the id and timestamps the store assigned) is
  placed at the head of the local sequence, in front of all records that were there,
  which keep their order; nothing else is added; the title and description fields
  are cleared; and exactly one store call, the insert, was issued. The list is
  rendered in sequence order, so the new record is the first one shown.
\<close>

theorem handleCreate_success_prepends:
  assumes "trim (title s) \<noteq> []"
  shows "todos (fst (handleCreate user (PostgrestSuccess d) s)) = d # todos s
       \<and> title (fst (handleCreate user (PostgrestSuccess d) s)) = []
       \<and> description (fst (handleCreate user (PostgrestSuccess d) s)) = []
       \<and> store_calls (snd (handleCreate user (PostgrestSuccess d) s)) =
           [Insert (trim (title s)) (trim_or_null (description s)) (user_id user) False]"
  using assms by (simp add: handleCreate_def Let_def)

text \<open>The same on the list [record 1] with " B " typed into the title field.\<close>

theorem handleCreate_success_prepends_witness:
  "trim (title formState) \<noteq> []
   \<and> todos (fst (handleCreate alice (PostgrestSuccess todoB) formState)) = [todoB, todoA]
   \<and> title (fst (handleCreate alice (PostgrestSuccess todoB) formState)) = []
   \<and> description (fst (handleCreate alice (PostgrestSuccess todoB) formState)) = []
   \<and> store_calls (snd (handleCreate alice (PostgrestSuccess todoB) formState)) =
        [Insert (str ''B'') None (str ''u1'') False]"
proof -
  have h: "trim (title formState) \<noteq> []"
    by (simp add: formState_def initialState_def trim_examples str_nonempty)
  show ?thesis
    using h handleCreate_success_prepends [OF h, of alice todoB]
    by (simp add: formState_def initialState_def alice_def trim_examples trim_or_null_def)
qed

text \<open>
  Claim C1 as stated has the record appended to the visible list. On the list
  [record 1] a successful create of record 2 gives [record 2, record 1], which is
  not the old list with record 2 at its end.
\<close>

theorem handleCreate_not_appended:
  "todos (fst (handleCreate alice (PostgrestSuccess todoB) formState)) = [todoB, todoA]
   \<and> todos (fst (handleCreate alice (PostgrestSuccess todoB) formState))
       \<noteq> todos formState @ [todoB]"
  by (simp add: handleCreate_def Let_def formState_def initialState_def trim_examples
      str_nonempty todoA_def todoB_def example_ids)

text \<open>
  Claim C5. When the title field trims to the empty string (by \<open>trim_empty_iff\<close>:
  when it is empty or holds white space only), create issues no store call and
  returns the component state as it was: the todo sequence, the form fields and the
  busy flag included. The check is the handler's own first statement; the store's
  answer \<open>resp\<close> is never consulted.
\<close>

theorem handleCreate_blank_title:
  assumes "trim (title s) = []"
  shows "fst (handleCreate user resp s) = s
       \<and> store_calls (snd (handleCreate user resp s)) = []"
  using assms by (simp add: handleCreate_def)

text \<open>The same with two blanks in the title field.\<close>

theorem handleCreate_blank_title_witness:
  "trim (title blankState) = []
   \<and> title blankState = str ''  ''
   \<and> fst (handleCreate alice (PostgrestSuccess todoB) blankState) = blankState
   \<and> store_calls (snd (handleCreate alice (PostgrestSuccess todoB) blankState)) = []"
proof -
  have h: "trim (title blankState) = []"
    by (simp add: blankState_def initialState_def trim_examples)
  show ?thesis
    using h handleCreate_blank_title [OF h, of alice "PostgrestSuccess todoB"]
    by (simp add: blankState_def)
qed

section \<open>Update\<close>

text \<open>
  Claim C2. Let the trimmed edit title be non-empty and let the record with id \<open>i\<close>
  sit at position \<open>k\<close> of the local sequence. After a successful update the
  sequence has the same length, every entry whose id is not \<open>i\<close> is the entry that
  was there, and entry \<open>k\<close> is the server-returned record (so its title, description
  and \<^verbatim>\<open>updated_at\<close> are the server's); with distinct ids the new sequence is the old
  one with position \<open>k\<close> overwritten. The edit state is cleared. After a failed
  update the sequence and the edit state are what they were, the edit state is not
  cleared, and the error is shown in an alert. Hence the edit state is cleared
  exactly when the store reports no error.
\<close>

theorem handleUpdate_success_in_place:
  assumes "trim (editTitle s) \<noteq> []"
    and "k < length (todos s)"
    and "todo_id (todos s ! k) = i"
  shows "(let ok = fst (handleUpdate i now (PostgrestSuccess d) s);
              ko = handleUpdate i now (PostgrestFailure err) s
          in length (todos ok) = length (todos s)
           \<and> (\<forall>j<length (todos s).
                 todos ok ! j = (if todo_id (todos s ! j) = i then d else todos s ! j))
           \<and> todos ok ! k = d
           \<and> (distinct (map todo_id (todos s)) \<longrightarrow> todos ok = (todos s)[k := d])
           \<and> edit_state_cleared ok
           \<and> todos (fst ko) = todos s
           \<and> editingId (fst ko) = editingId s
           \<and> editTitle (fst ko) = editTitle s
           \<and> editDescription (fst ko) = editDescription s
           \<and> \<not> edit_state_cleared (fst ko)
           \<and> alerts (snd ko) = [str ''Error updating todo: '' @ message err]
           \<and> (edit_state_cleared (fst (handleUpdate i now resp s))
                \<longleftrightarrow> resp_error resp = None))"
proof -
  have ne: "editTitle s \<noteq> []"
    using assms(1) by (rule trim_nonempty_arg)
  have d: "distinct (map todo_id (todos s)) \<Longrightarrow>
      map (\<lambda>todo. if todo_id todo = i then d else todo) (todos s) = (todos s)[k := d]"
    using assms(2,3) by (simp add: map_replace_distinct)
  have c: "edit_state_cleared (fst (handleUpdate i now resp s)) \<longleftrightarrow> resp_error resp = None"
    using assms(1) ne
    by (cases resp) (simp_all add: handleUpdate_def Let_def edit_state_cleared_def)
  show ?thesis
    using assms ne d c by (simp add: handleUpdate_def Let_def edit_state_cleared_def)
qed

text \<open>The same on [record 2, record 1] with record 1 being edited.\<close>

theorem handleUpdate_success_in_place_witness:
  "trim (editTitle editingState) \<noteq> [] \<and> (1::nat) < length (todos editingState)
   \<and> todo_id (todos editingState ! 1) = str ''1''
   \<and> distinct (map todo_id (todos editingState))
   \<and> todos (fst (handleUpdate (str ''1'') (str ''t9'') (PostgrestSuccess todoA_renamed)
        editingState)) = [todoB, todoA_renamed]
   \<and> edit_state_cleared (fst (handleUpdate (str ''1'') (str ''t9'')
        (PostgrestSuccess todoA_renamed) editingState))
   \<and> todos (fst (handleUpdate (str ''1'') (str ''t9'') (PostgrestFailure storeDown)
        editingState)) = [todoB, todoA]
   \<and> \<not> edit_state_cleared (fst (handleUpdate (str ''1'') (str ''t9'')
        (PostgrestFailure storeDown) editingState))"
proof -
  have h1: "trim (editTitle editingState) \<noteq> []"
    by (simp add: editingState_def initialState_def trim_examples str_nonempty)
  have h2: "(1::nat) < length (todos editingState)"
    by (simp add: editingState_def initialState_def)
  have h3: "todo_id (todos editingState ! 1) = str ''1''"
    by (simp add: editingState_def initialState_def todoA_def)
  have h4: "distinct (map todo_id (todos editingState))"
    by (simp add: editingState_def initialState_def todoA_def todoB_def example_ids)
  have ts: "todos editingState = [todoB, todoA]"
    by (simp add: editingState_def initialState_def)
  show ?thesis
    using h1 h2 h3 h4
      handleUpdate_success_in_place [OF h1 h2 h3, of "str ''t9''" todoA_renamed storeDown
        "PostgrestSuccess todoA_renamed"]
    by (simp add: Let_def ts)
qed

section \<open>Toggle completion\<close>

text \<open>
  Claim C3. Let \<open>t\<close> be the record at position \<open>k\<close> of the local sequence and let
  its checkbox be used, which calls the handler with \<open>t\<close>'s id and \<open>t\<close>'s
  \<^verbatim>\<open>completed\<close> flag. The handler asks the store for the negated flag and the
  current time. On success, with \<open>d\<close> the returned record carrying what was asked
  for, the sequence keeps its length, every entry with another id is untouched,
  and entry \<open>k\<close> has its flag flipped and its \<^verbatim>\<open>updated_at\<close> set to the current time;
  with distinct ids exactly position \<open>k\<close> is overwritten. On failure the sequence
  is the same list as before, no alert is raised and the error is logged.
\<close>

theorem handleToggleComplete_one_record:
  assumes "k < length (todos s)"
    and "todos s ! k = t"
    and "completed d = (\<not> completed t)"
    and "updated_at d = now"
  shows "(let ok = handleToggleComplete (todo_id t) (completed t) now (PostgrestSuccess d) s;
              ko = handleToggleComplete (todo_id t) (completed t) now (PostgrestFailure err) s
          in store_calls (snd ok) = [UpdateCompleted (todo_id t) (\<not> completed t) now]
           \<and> length (todos (fst ok)) = length (todos s)
           \<and> (\<forall>j<length (todos s).
                 todos (fst ok) ! j =
                   (if todo_id (todos s ! j) = todo_id t then d else todos s ! j))
           \<and> completed (todos (fst ok) ! k) = (\<not> completed (todos s ! k))
           \<and> updated_at (todos (fst ok) ! k) = now
           \<and> (distinct (map todo_id (todos s)) \<longrightarrow> todos (fst ok) = (todos s)[k := d])
           \<and> todos (fst ko) = todos s
           \<and> alerts (snd ko) = []
           \<and> console_errors (snd ko) = [err])"
proof -
  have d: "distinct (map todo_id (todos s)) \<Longrightarrow>
      map (\<lambda>todo. if todo_id todo = todo_id t then d else todo) (todos s) = (todos s)[k := d]"
    using assms(1,2) by (simp add: map_replace_distinct)
  show ?thesis
    using assms d by (simp add: handleToggleComplete_def Let_def)
qed

text \<open>The same on [record 2, record 1], toggling record 1.\<close>

theorem handleToggleComplete_one_record_witness:
  "(1::nat) < length (todos twoTodos) \<and> todos twoTodos ! 1 = todoA
   \<and> completed todoA_done = (\<not> completed todoA) \<and> updated_at todoA_done = str ''t9''
   \<and> distinct (map todo_id (todos twoTodos))
   \<and> todos (fst (handleToggleComplete (str ''1'') False (str ''t9'')
        (PostgrestSuccess todoA_done) twoTodos)) = [todoB, todoA_done]
   \<and> completed todoA_done
   \<and> todos (fst (handleToggleComplete (str ''1'') False (str ''t9'')
        (PostgrestFailure storeDown) twoTodos)) = [todoB, todoA]
   \<and> alerts (snd (handleToggleComplete (str ''1'') False (str ''t9'')
        (PostgrestFailure storeDown) twoTodos)) = []"
proof -
  have h1: "(1::nat) < length (todos twoTodos)"
    by (simp add: twoTodos_def initialState_def)
  have h2: "todos twoTodos ! 1 = todoA"
    by (simp add: twoTodos_def initialState_def)
  have h3: "completed todoA_done = (\<not> completed todoA)"
    by (simp add: todoA_done_def todoA_def)
  have h4: "updated_at todoA_done = str ''t9''"
    by (simp add: todoA_done_def)
  have h5: "distinct (map todo_id (todos twoTodos))"
    by (simp add: twoTodos_def initialState_def todoA_def todoB_def example_ids)
  have ts: "todos twoTodos = [todoB, todoA]"
    by (simp add: twoTodos_def initialState_def)
  have a: "todo_id todoA = str ''1''" "completed todoA = False" "completed todoA_done"
    by (simp_all add: todoA_def todoA_done_def)
  show ?thesis
    using h1 h2 h3 h4 h5 handleToggleComplete_one_record [OF h1 h2 h3 h4, of storeDown]
    by (simp add: Let_def ts a)
qed

section \<open>Delete\<close>

text \<open>
  Claim C4. If the confirmation is declined the handler returns the state unchanged
  and issues no store call. If it is granted, one delete call for the id is issued;
  when the store succeeds the local sequence loses the records with that id and
  keeps all others in order, which for distinct ids and a record at position \<open>k\<close>
  is the removal of exactly that one entry; when the store fails the sequence is
  unchanged and the error is shown in an alert.
\<close>

theorem handleDelete_cases:
  "(let no = handleDelete i False resp s;
        ok = handleDelete i True (PostgrestSuccess ()) s;
        ko = handleDelete i True (PostgrestFailure err) s
    in fst no = s
     \<and> store_calls (snd no) = []
     \<and> store_calls (snd ok) = [Delete i]
     \<and> todos (fst ok) = filter (\<lambda>todo. todo_id todo \<noteq> i) (todos s)
     \<and> (distinct (map todo_id (todos s)) \<and> k < length (todos s) \<and> todo_id (todos s ! k) = i
          \<longrightarrow> todos (fst ok) = take k (todos s) @ drop (Suc k) (todos s)
              \<and> Suc (length (todos (fst ok))) = length (todos s))
     \<and> todos (fst ko) = todos s
     \<and> alerts (snd ko) = [str ''Error deleting todo: '' @ message err])"
proof -
  have d: "distinct (map todo_id (todos s)) \<Longrightarrow> k < length (todos s) \<Longrightarrow>
      todo_id (todos s ! k) = i \<Longrightarrow>
      filter (\<lambda>todo. todo_id todo \<noteq> i) (todos s) = take k (todos s) @ drop (Suc k) (todos s)"
    by (rule filter_remove_distinct)
  have l: "k < length (todos s) \<Longrightarrow>
      Suc (length (take k (todos s) @ drop (Suc k) (todos s))) = length (todos s)"
    by simp
  show ?thesis
    using d l by (simp add: handleDelete_def Let_def)
qed

text \<open>The same on [record 2, record 1], deleting record 2.\<close>

theorem handleDelete_cases_witness:
  "distinct (map todo_id (todos twoTodos)) \<and> (0::nat) < length (todos twoTodos)
   \<and> todo_id (todos twoTodos ! 0) = str ''2''
   \<and> fst (handleDelete (str ''2'') False (PostgrestSuccess ()) twoTodos) = twoTodos
   \<and> store_calls (snd (handleDelete (str ''2'') False (PostgrestSuccess ()) twoTodos)) = []
   \<and> todos (fst (handleDelete (str ''2'') True (PostgrestSuccess ()) twoTodos)) = [todoA]
   \<and> todos (fst (handleDelete (str ''2'') True (PostgrestFailure storeDown) twoTodos))
        = [todoB, todoA]"
proof -
  have ts: "todos twoTodos = [todoB, todoA]"
    by (simp add: twoTodos_def initialState_def)
  have h: "distinct (map todo_id (todos twoTodos)) \<and> (0::nat) < length (todos twoTodos)
      \<and> todo_id (todos twoTodos ! 0) = str ''2''"
    by (simp add: ts todoA_def todoB_def example_ids)
  have a: "todo_id todoA = str ''1''" "todo_id todoB = str ''2''"
    by (simp_all add: todoA_def todoB_def)
  show ?thesis
    using h handleDelete_cases [where i = "str ''2''" and resp = "PostgrestSuccess ()"
        and s = twoTodos and k = 0 and err = storeDown]
    by (simp add: Let_def ts a example_ids)
qed

section \<open>What update requires\<close>

text \<open>The render offers Save for an id only on the card of the record being edited.\<close>

lemma Save_in_card_controls:
  "Save i \<in> set (card_controls s todo) \<longleftrightarrow> editingId s = Some i \<and> todo_id todo = i"
  by (auto simp: card_controls_def)

lemma Save_enabled_iff:
  "Save i \<in> set (enabled_controls s)
     \<longleftrightarrow> \<not> loading s \<and> editingId s = Some i \<and> i \<in> todo_id ` set (todos s)"
  by (auto simp: enabled_controls_def Save_in_card_controls)

text \<open>
  Claim C6. The handler is a closure of the component whose only call site is the
  Save control, so an update invocation is a use of \<open>Save i\<close> among the enabled
  controls of the state \<open>s\<close>. For every such invocation a store call is issued
  exactly when the editing target is the given id and the trimmed edit title is
  non-empty; in particular it is issued only then. For every call of the handler,
  rendered or not, an empty trimmed edit title means that no store call is made
  and that the state is returned unchanged.
\<close>

theorem handleUpdate_requires_edit_target_and_title:
  "(Save i \<in> set (enabled_controls s) \<longrightarrow>
      editingId s = Some i
      \<and> (store_calls (snd (handleUpdate i now resp s)) \<noteq> []
           \<longleftrightarrow> editingId s = Some i \<and> trim (editTitle s) \<noteq> []))
   \<and> (trim (editTitle s) = [] \<longrightarrow>
        handleUpdate i now resp s = (s, [])
        \<and> fst (handleUpdate i now resp s) = s
        \<and> store_calls (snd (handleUpdate i now resp s)) = [])"
  by (cases resp) (simp_all add: handleUpdate_def Let_def Save_enabled_iff)

text \<open>The same with record 1 in edit mode, once with a blank edit title and once with "A2".\<close>

theorem handleUpdate_requires_edit_target_and_title_witness:
  "Save (str ''1'') \<in> set (enabled_controls blankEditState)
   \<and> trim (editTitle blankEditState) = []
   \<and> editingId blankEditState = Some (str ''1'')
   \<and> handleUpdate (str ''1'') (str ''t9'') (PostgrestSuccess todoA_renamed) blankEditState
        = (blankEditState, [])
   \<and> store_calls (snd (handleUpdate (str ''1'') (str ''t9'') (PostgrestSuccess todoA_renamed)
        blankEditState)) = []
   \<and> Save (str ''1'') \<in> set (enabled_controls editingState)
   \<and> trim (editTitle editingState) \<noteq> []
   \<and> editingId editingState = Some (str ''1'')
   \<and> store_calls (snd (handleUpdate (str ''1'') (str ''t9'') (PostgrestSuccess todoA_renamed)
        editingState)) \<noteq> []"
proof -
  have h1: "trim (editTitle blankEditState) = []"
    by (simp add: blankEditState_def initialState_def trim_examples)
  have h2: "Save (str ''1'') \<in> set (enabled_controls blankEditState)"
    by (simp add: Save_enabled_iff blankEditState_def initialState_def todoA_def)
  have h3: "trim (editTitle editingState) \<noteq> []"
    by (simp add: editingState_def initialState_def trim_examples str_nonempty)
  have h4: "Save (str ''1'') \<in> set (enabled_controls editingState)"
    by (simp add: Save_enabled_iff editingState_def initialState_def todoA_def)
  show ?thesis
    using h1 h2 h3 h4
      handleUpdate_requires_edit_target_and_title
        [of "str ''1''" blankEditState "str ''t9''" "PostgrestSuccess todoA_renamed"]
      handleUpdate_requires_edit_target_and_title
        [of "str ''1''" editingState "str ''t9''" "PostgrestSuccess todoA_renamed"]
    by simp
qed

section \<open>Ids that are not in the local sequence\<close>

text \<open>
  Claim C10. For an id that no record of the local sequence carries, a successful
  update, a successful toggle and a confirmed, successful delete all leave the
  sequence as it was: the returned record is neither inserted nor appended, since
  the replacement by id matches no entry, and the filter by id drops none.
\<close>

theorem absent_id_no_change:
  assumes "i \<notin> todo_id ` set (todos s)"
  shows "todos (fst (handleUpdate i now (PostgrestSuccess d) s)) = todos s
       \<and> todos (fst (handleToggleComplete i c now (PostgrestSuccess d) s)) = todos s
       \<and> todos (fst (handleDelete i True (PostgrestSuccess ()) s)) = todos s"
  using assms
  by (simp add: handleUpdate_def handleToggleComplete_def handleDelete_def Let_def
      map_replace_absent filter_absent)

text \<open>The same on [record 2, record 1] with the unknown id 3.\<close>

theorem absent_id_no_change_witness:
  "str ''3'' \<notin> todo_id ` set (todos editingState)
   \<and> trim (editTitle editingState) \<noteq> []
   \<and> todos (fst (handleUpdate (str ''3'') (str ''t9'') (PostgrestSuccess todoA_renamed)
        editingState)) = [todoB, todoA]
   \<and> todos (fst (handleToggleComplete (str ''3'') False (str ''t9'')
        (PostgrestSuccess todoA_done) editingState)) = [todoB, todoA]
   \<and> todos (fst (handleDelete (str ''3'') True (PostgrestSuccess ()) editingState))
        = [todoB, todoA]"
proof -
  have ts: "todos editingState = [todoB, todoA]"
    by (simp add: editingState_def initialState_def)
  have h: "str ''3'' \<notin> todo_id ` set (todos editingState)"
    by (simp add: ts todoA_def todoB_def example_ids)
  have e: "trim (editTitle editingState) \<noteq> []"
    by (simp add: editingState_def initialState_def trim_examples str_nonempty)
  show ?thesis
    using h e absent_id_no_change [OF h, of "str ''t9''" todoA_renamed False]
      absent_id_no_change [OF h, of "str ''t9''" todoA_done False]
    by (simp add: ts)
qed

section \<open>Dashboard Loader\<close>

text \<open>
  Claim C7. With no current user the loader answers with a redirect to the login
  path; asking the session provider for the user is all it has done, so no Record
  Store query was issued, whatever the store would have answered.
\<close>

theorem DashboardPage_unauthenticated:
  "fst (DashboardPage None resp) = Redirect (str ''/login'')
   \<and> snd (DashboardPage None resp) = [GetUser]
   \<and> store_calls (snd (DashboardPage None resp)) = []"
  by (simp add: DashboardPage_def)

text \<open>
  Claim C8. With a current user and a failing select, the loader still renders the
  page: the list component gets the empty list and the user, the error goes to the
  console, and nothing is alerted.
\<close>

theorem DashboardPage_select_failure:
  "fst (DashboardPage (Some user) (PostgrestFailure err)) = Rendered (email user) [] user
   \<and> initialTodos (fst (DashboardPage (Some user) (PostgrestFailure err))) = []
   \<and> store_calls (snd (DashboardPage (Some user) (PostgrestFailure err)))
        = [SelectByUser (user_id user) (str ''created_at'') False]
   \<and> console_errors (snd (DashboardPage (Some user) (PostgrestFailure err))) = [err]
   \<and> alerts (snd (DashboardPage (Some user) (PostgrestFailure err))) = []"
  by (simp add: DashboardPage_def)

section \<open>Auth Callback Handler\<close>

text \<open>
  Claim C9, as amended. The response is a redirect to origin + "/reset-password"
  exactly when the first \<^verbatim>\<open>type\<close> query parameter is "recovery", and to
  origin + "/dashboard" otherwise. The exchange is attempted, once and with the code,
  exactly when the first \<^verbatim>\<open>code\<close> parameter is present with a non-empty value. The
  outcome of the exchange changes neither the response nor the effects.
\<close>

theorem GET_redirect:
  "fst (GET request exchanged) =
      NextRedirect (origin request @
        (if searchParams_get (searchParams request) (str ''type'') = Some (str ''recovery'')
         then str ''/reset-password'' else str ''/dashboard''))
   \<and> exchanges (snd (GET request exchanged)) =
       (case searchParams_get (searchParams request) (str ''code'') of
          None \<Rightarrow> []
        | Some c \<Rightarrow> if c = [] then [] else [c])
   \<and> GET request exchanged = GET request exchanged'"
  by (simp add: GET_def Let_def split: option.split)

text \<open>The same for \<^verbatim>\<open>?code=abc&type=recovery\<close> with a failing exchange.\<close>

theorem GET_redirect_witness:
  "fst (GET recoveryRequest None) = NextRedirect (str ''https://app.example/reset-password'')
   \<and> exchanges (snd (GET recoveryRequest None)) = [str ''abc'']
   \<and> GET recoveryRequest None = GET recoveryRequest (Some (str ''invalid grant''))"
proof -
  note w = GET_redirect [of recoveryRequest None "Some (str ''invalid grant'')"]
  have t: "searchParams_get (searchParams recoveryRequest) (str ''type'') = Some (str ''recovery'')"
    by (simp add: recoveryRequest_def example_names)
  have c: "searchParams_get (searchParams recoveryRequest) (str ''code'') = Some (str ''abc'')"
    by (simp add: recoveryRequest_def)
  have o: "origin recoveryRequest @ str ''/reset-password''
      = str ''https://app.example/reset-password''"
    by (simp add: recoveryRequest_def str_def)
  show ?thesis
    using w [THEN conjunct2, THEN conjunct2] w [THEN conjunct1]
      w [THEN conjunct2, THEN conjunct1]
    by (simp add: t c o example_names)
qed

text \<open>
  Claim C9 as stated has the exchange attempted whenever a code parameter is
  present. For \<^verbatim>\<open>?code=\<close> the parameter is present, its value is the empty
  string, which is falsy, and no exchange is attempted.
\<close>

theorem GET_empty_code_no_exchange:
  "searchParams_get (searchParams emptyCodeRequest) (str ''code'') = Some []
   \<and> exchanges (snd (GET emptyCodeRequest None)) = []"
  by (simp add: GET_def Let_def emptyCodeRequest_def)

end
